theory Spec2Isabelle
  imports Main
begin

section \<open>The RPC agent server of \<^verbatim>\<open>agentscope/agents/rpc_agent.py\<close>\<close>

text \<open>
  The development embeds the server side of \<^verbatim>\<open>rpc_agent.py\<close> (the class
  \<^verbatim>\<open>AgentPlatform\<close>, \<^verbatim>\<open>check_port\<close>, \<^verbatim>\<open>find_available_port\<close>) and the class
  \<^verbatim>\<open>ImportErrorReporter\<close> of \<^verbatim>\<open>utils/tools.py\<close>.

  Conventions.
  \<^item> A Python object that is mutated in place is passed in and returned: a handler takes
    the platform \<open>self\<close> and gives back the platform it leaves behind.
  \<^item> A Python exception is a value of \<open>pyexc\<close>; a call that may raise has a result of
    type \<open>'a result\<close>. All exceptions of the model are subclasses of Python's
    \<^verbatim>\<open>Exception\<close>.
  \<^item> The two locks (\<^verbatim>\<open>task_id_lock\<close>, \<^verbatim>\<open>agent_id_lock\<close>) make their blocks atomic;
    a block under a lock is one step of the model, and threads interleave between steps.
  \<^item> Names that \<^verbatim>\<open>rpc_agent.py\<close> imports from modules outside the two source files
    (the message codec, \<^verbatim>\<open>dill\<close>, \<^verbatim>\<open>json\<close>, the agent classes, the sockets) are
    parameters: the records \<open>collab\<close> and \<open>os\<close> hold what they answer.
  \<^item> Python method names that start with an underscore cannot be Isabelle names:
    \<^verbatim>\<open>_reply\<close> is \<open>srv_reply\<close>, \<^verbatim>\<open>_get\<close> is \<open>srv_get\<close>, and so on.
\<close>

subsection \<open>Exceptions and results\<close>

type_synonym bytes = string

text \<open>
  \<open>ContextManagerError\<close> is what \<^verbatim>\<open>with x:\<close> raises on an object that is no context
  manager (an \<^verbatim>\<open>AttributeError\<close> before Python 3.11, a \<^verbatim>\<open>TypeError\<close> from 3.11 on).
  \<open>Foreign\<close> is an exception raised inside a collaborator.
\<close>

datatype pyexc =
    AttributeError
  | TypeError
  | KeyError
  | ValueError string
  | ImportError string
  | OverflowError
  | ContextManagerError
  | Foreign string

datatype 'a result = Returned 'a | Raised pyexc

text \<open>A value that a method other than a handler returns: \<^verbatim>\<open>None\<close> or a truth value.\<close>

datatype pyvalue = PyNone | PyBool bool

text \<open>Some members of \<^verbatim>\<open>grpc.StatusCode\<close>; the source names only \<open>INVALID_ARGUMENT\<close>.\<close>

datatype status_code = OK | INVALID_ARGUMENT | NOT_FOUND | UNKNOWN

subsection \<open>Messages\<close>

text \<open>
  Modelled from the spec: the class \<^verbatim>\<open>Msg\<close> of \<^verbatim>\<open>agentscope.message\<close> is not among the
  source files. The fields are those the server reads or writes: \<open>name\<close>, \<open>content\<close>
  (null is \<open>None\<close>), \<open>role\<close> (defaults to "assistant"), the \<^verbatim>\<open>__status\<close> tag and the
  attached \<open>task_id\<close>. The timestamp and the id that the class generates are left out.
\<close>

record msg =
  msg_name :: string
  msg_content :: "string option"
  msg_role :: string
  msg_status :: "string option"
  msg_task_id :: "int option"

definition Msg :: "string \<Rightarrow> string option \<Rightarrow> msg" where
  "Msg n c = \<lparr>msg_name = n, msg_content = c, msg_role = ''assistant'',
     msg_status = None, msg_task_id = None\<rparr>"

text \<open>
  Modelled from the spec: a \<^verbatim>\<open>PlaceholderMessage\<close> that is not yet resolved carries the
  locator of its task; \<^verbatim>\<open>update_value\<close> fetches the concrete message from the origin
  server.
\<close>

record locator =
  ph_host :: string
  ph_port :: int
  ph_agent_id :: string
  ph_task_id :: int

datatype message = Concrete msg | PlaceholderMessage locator

text \<open>What \<^verbatim>\<open>deserialize\<close> returns: one message or a list of messages.\<close>

datatype wire = Single message | Sequence "message list"

text \<open>The envelope \<^verbatim>\<open>RpcMsg\<close>; a field that is not given is empty.\<close>

record rpcmsg =
  target_func :: string
  agent_id :: string
  rpc_value :: bytes

definition RpcMsg :: "bytes \<Rightarrow> rpcmsg" where
  "RpcMsg v = \<lparr>target_func = [], agent_id = [], rpc_value = v\<rparr>"

subsection \<open>Agents and collaborators\<close>

text \<open>
  An agent instance, as far as the server looks into it: its \<open>name\<close>, its
  \<^verbatim>\<open>_agent_id\<close>, its class and the \<^verbatim>\<open>_init_settings\<close> (args and kwargs) recorded at
  construction. What an agent remembers between calls is not modelled.
\<close>

type_synonym args = "string list"
type_synonym kwargs = "(string \<times> string) list"

record agent =
  agent_name :: string
  agent_ident :: string
  agent_class :: string
  init_settings :: "args \<times> kwargs"

record agent_configs =
  class_name :: string
  cfg_args :: args
  cfg_kwargs :: kwargs

subsection \<open>The platform\<close>

text \<open>
  An entry of the result pool is the \<^verbatim>\<open>threading.Condition\<close> of a pending task or the
  message a worker stored.

  The pool is an \<^verbatim>\<open>ExpiringDict\<close> (a third-party container). The platform uses three of
  its operations: \<^verbatim>\<open>pool[k] = v\<close>, \<^verbatim>\<open>pool[k]\<close> (a \<^verbatim>\<open>KeyError\<close> on a key that is absent
  or expired) and \<^verbatim>\<open>pool.get(k)\<close> (\<^verbatim>\<open>None\<close> on such a key). Here it is the map of the
  entries that are alive; the container dropping an entry, by capacity or by age, is
  the step \<open>evict\<close>, which may happen between any two steps of the platform.
\<close>

datatype pool_entry = Condition | Result message

type_synonym pool = "int \<rightharpoonup> pool_entry"

text \<open>A task handed to the executor: the arguments of \<^verbatim>\<open>process_messages\<close>.\<close>

type_synonym task = "int \<times> string \<times> wire option"

text \<open>
  \<^verbatim>\<open>self.host\<close> is the host name given to the constructor. When \<^verbatim>\<open>__init__\<close> is run again
  through \<^verbatim>\<open>call_func\<close> (see \<open>reinit\<close>), the request itself is bound to \<^verbatim>\<open>host\<close>.

  \<open>executor\<close> lists the tasks that were submitted and that no worker has run yet.
\<close>

datatype host_value = Hostname string | Host_request rpcmsg

record platform =
  host :: host_value
  port :: "int option"
  max_len :: int
  max_age_seconds :: int
  result_pool :: pool
  executor :: "task list"
  task_id_counter :: int
  agent_pool :: "string \<rightharpoonup> agent"

text \<open>\<^verbatim>\<open>AgentPlatform.__init__\<close>\<close>

definition AgentPlatform :: "string \<Rightarrow> int option \<Rightarrow> int \<Rightarrow> int \<Rightarrow> platform" where
  "AgentPlatform h p max_pool_size max_timeout_seconds =
     \<lparr>host = Hostname h, port = p, max_len = max_pool_size, max_age_seconds = max_timeout_seconds,
      result_pool = Map.empty, executor = [], task_id_counter = 0,
      agent_pool = Map.empty\<rparr>"

text \<open>
  The collaborators of one call:
  \<^item> \<open>deserialize\<close>: \<^verbatim>\<open>agentscope.message.deserialize\<close>;
  \<^item> \<open>serialize\<close>: the method \<^verbatim>\<open>serialize\<close> of a message;
  \<^item> \<open>json_task_id\<close>: \<^verbatim>\<open>json.loads(value)["task_id"]\<close>;
  \<^item> \<open>dill_loads\<close>: \<^verbatim>\<open>dill.loads(base64.b64decode(value))\<close>;
  \<^item> \<open>get_agent_class\<close>: \<^verbatim>\<open>AgentBase.get_agent_class\<close>, which raises on a name that
    is not registered;
  \<^item> \<open>construct\<close>: calling a class on args and kwargs;
  \<^item> \<open>update_value\<close>: resolving a placeholder;
  \<^item> \<open>reply\<close>, \<open>observe\<close>: the agent's own methods;
  \<^item> \<open>format_exc\<close>: \<^verbatim>\<open>traceback.format_exc()\<close> for the exception being handled;
  \<^item> \<open>hash_request\<close>: \<^verbatim>\<open>hash(request)\<close> of an \<^verbatim>\<open>RpcMsg\<close>, which a dictionary look-up with
    the request as key starts with (it raises when the class is not hashable);
  \<^item> \<open>inherited_call\<close>: \<^verbatim>\<open>getattr(self, name)(request)\<close> for an attribute that the
    platform inherits from \<^verbatim>\<open>RpcAgentServicer\<close> or \<^verbatim>\<open>object\<close>: what it returns or raises
    and the platform it leaves.
\<close>

record collab =
  deserialize :: "bytes \<Rightarrow> wire result"
  serialize :: "message \<Rightarrow> bytes"
  json_task_id :: "bytes \<Rightarrow> int result"
  dill_loads :: "bytes \<Rightarrow> agent_configs result"
  get_agent_class :: "string \<Rightarrow> string result"
  construct :: "string \<Rightarrow> args \<Rightarrow> kwargs \<Rightarrow> agent result"
  update_value :: "locator \<Rightarrow> msg result"
  reply :: "agent \<Rightarrow> wire option \<Rightarrow> message result"
  observe :: "agent \<Rightarrow> wire \<Rightarrow> unit result"
  format_exc :: "pyexc \<Rightarrow> string"
  hash_request :: "rpcmsg \<Rightarrow> unit result"
  inherited_call :: "string \<Rightarrow> platform \<Rightarrow> rpcmsg \<Rightarrow> pyvalue result \<times> platform"

text \<open>
  \<^verbatim>\<open>__init__\<close> run again on a platform that exists, as \<^verbatim>\<open>self.__init__(request)\<close>: the
  request is bound to \<^verbatim>\<open>host\<close>, the other parameters take their defaults, and every
  field is assigned anew: the counter is 0 again, the result pool and the agent pool are
  empty. \<^verbatim>\<open>self.executor\<close> becomes a new thread pool; the tasks handed to the old one
  stay with its threads, which still run \<^verbatim>\<open>process_messages\<close> of this platform, so the
  submitted tasks are kept.
\<close>

definition reinit :: "rpcmsg \<Rightarrow> platform \<Rightarrow> platform" where
  "reinit request self =
     \<lparr>host = Host_request request, port = None, max_len = 8192, max_age_seconds = 1800,
      result_pool = Map.empty, executor = executor self, task_id_counter = 0,
      agent_pool = Map.empty\<rparr>"

definition evict :: "int \<Rightarrow> platform \<Rightarrow> platform" where
  "evict k self = self\<lparr>result_pool := (result_pool self)(k := None)\<rparr>"

text \<open>\<^verbatim>\<open>get_task_id\<close>: the increment and the read are one block under \<^verbatim>\<open>task_id_lock\<close>.\<close>

definition get_task_id :: "platform \<Rightarrow> int \<times> platform" where
  "get_task_id self =
     (task_id_counter self + 1, self\<lparr>task_id_counter := task_id_counter self + 1\<rparr>)"

definition agent_exists :: "platform \<Rightarrow> string \<Rightarrow> bool" where
  "agent_exists self aid = (agent_pool self aid \<noteq> None)"

text \<open>
  \<^verbatim>\<open>check_and_generate_agent\<close>. The configs are \<open>None\<close> when \<^verbatim>\<open>_create_agent\<close> got an empty
  value; \<^verbatim>\<open>agent_configs["class_name"]\<close> on \<^verbatim>\<open>None\<close> is a \<^verbatim>\<open>TypeError\<close>.
\<close>

definition check_and_generate_agent ::
    "collab \<Rightarrow> platform \<Rightarrow> string \<Rightarrow> agent_configs option \<Rightarrow> unit result \<times> platform" where
  "check_and_generate_agent env self aid configs =
     (if agent_pool self aid = None then
        (case configs of
           None \<Rightarrow> (Raised TypeError, self)
         | Some cfg \<Rightarrow>
            (case get_agent_class env (class_name cfg) of
               Raised e \<Rightarrow> (Raised e, self)
             | Returned cls \<Rightarrow>
                (case construct env cls (cfg_args cfg) (cfg_kwargs cfg) of
                   Raised e \<Rightarrow> (Raised e, self)
                 | Returned agent_instance \<Rightarrow>
                    (Returned (),
                     self\<lparr>agent_pool :=
                       (agent_pool self)(aid \<mapsto> agent_instance\<lparr>agent_ident := aid\<rparr>)\<rparr>))))
      else (Returned (), self))"

definition check_and_delete_agent :: "platform \<Rightarrow> string \<Rightarrow> platform" where
  "check_and_delete_agent self aid =
     (if agent_pool self aid \<noteq> None
      then self\<lparr>agent_pool := (agent_pool self)(aid := None)\<rparr>
      else self)"

subsection \<open>The handlers\<close>

text \<open>
  \<^verbatim>\<open>_reply\<close>, up to the message it builds: decode the input, take a task id, put a
  \<^verbatim>\<open>Condition\<close> in the pool, submit the task, and only then read the agent's name
  (a \<^verbatim>\<open>KeyError\<close> when the agent is not in the pool).
\<close>

definition reply_msg :: "collab \<Rightarrow> platform \<Rightarrow> rpcmsg \<Rightarrow> msg result \<times> platform" where
  "reply_msg env self request =
     (case (if rpc_value request \<noteq> []
            then (case deserialize env (rpc_value request) of
                    Raised e \<Rightarrow> Raised e | Returned w \<Rightarrow> Returned (Some w))
            else Returned None) of
        Raised e \<Rightarrow> (Raised e, self)
      | Returned m \<Rightarrow>
         (let (task_id, s1) = get_task_id self;
              s2 = s1\<lparr>result_pool := (result_pool s1)(task_id \<mapsto> Condition)\<rparr>;
              s3 = s2\<lparr>executor := executor s2 @ [(task_id, agent_id request, m)]\<rparr>
          in (case agent_pool s3 (agent_id request) of
                None \<Rightarrow> (Raised KeyError, s3)
              | Some a \<Rightarrow>
                 (Returned ((Msg (agent_name a) None)\<lparr>msg_task_id := Some task_id\<rparr>), s3))))"

text \<open>\<^verbatim>\<open>_reply\<close>: the message, serialized, is the value of the envelope.\<close>

definition srv_reply :: "collab \<Rightarrow> platform \<Rightarrow> rpcmsg \<Rightarrow> rpcmsg result \<times> platform" where
  "srv_reply env self request =
     (case reply_msg env self request of
        (Raised e, s) \<Rightarrow> (Raised e, s)
      | (Returned m, s) \<Rightarrow> (Returned (RpcMsg (serialize env (Concrete m))), s))"

text \<open>
  The loop of \<^verbatim>\<open>_get\<close>. Each round reads the pool once; on a \<^verbatim>\<open>Condition\<close> it waits at
  most a second and reads again, and meanwhile the workers and the container change the
  pool. The list holds the pool as found at each round; when the list is used up and
  every round found a \<^verbatim>\<open>Condition\<close>, the loop is still waiting and the result is
  \<open>None\<close>. After the loop, \<^verbatim>\<open>result.serialize()\<close> on the \<^verbatim>\<open>None\<close> of an absent key is an
  \<^verbatim>\<open>AttributeError\<close>.
\<close>

fun get_loop :: "collab \<Rightarrow> int \<Rightarrow> pool list \<Rightarrow> rpcmsg result option" where
  "get_loop env tid [] = None"
| "get_loop env tid (p # ps) =
     (case p tid of
        Some Condition \<Rightarrow> get_loop env tid ps
      | Some (Result m) \<Rightarrow> Some (Returned (RpcMsg (serialize env m)))
      | None \<Rightarrow> Some (Raised AttributeError))"

text \<open>\<^verbatim>\<open>_get\<close>: \<open>later\<close> are the pools found at the rounds after the first.\<close>

definition srv_get :: "collab \<Rightarrow> pool list \<Rightarrow> platform \<Rightarrow> rpcmsg \<Rightarrow> rpcmsg result option" where
  "srv_get env later self request =
     (case json_task_id env (rpc_value request) of
        Raised e \<Rightarrow> Some (Raised e)
      | Returned tid \<Rightarrow> get_loop env tid (result_pool self # later))"

text \<open>
  The loop of \<^verbatim>\<open>_observe\<close> over a list: every placeholder is resolved, in order; the
  first \<^verbatim>\<open>update_value\<close> that raises ends the handler.
\<close>

fun resolve_all :: "collab \<Rightarrow> message list \<Rightarrow> message list result" where
  "resolve_all env [] = Returned []"
| "resolve_all env (Concrete m # ms) =
     (case resolve_all env ms of
        Raised e \<Rightarrow> Raised e | Returned rs \<Rightarrow> Returned (Concrete m # rs))"
| "resolve_all env (PlaceholderMessage l # ms) =
     (case update_value env l of
        Raised e \<Rightarrow> Raised e
      | Returned m \<Rightarrow>
         (case resolve_all env ms of
            Raised e \<Rightarrow> Raised e | Returned rs \<Rightarrow> Returned (Concrete m # rs)))"

text \<open>
  \<^verbatim>\<open>_observe\<close>. Iterating a single message visits the keys of a dictionary, none of
  which is a placeholder, so a single message is delivered as it is.
\<close>

definition srv_observe :: "collab \<Rightarrow> platform \<Rightarrow> rpcmsg \<Rightarrow> rpcmsg result \<times> platform" where
  "srv_observe env self request =
     (case deserialize env (rpc_value request) of
        Raised e \<Rightarrow> (Raised e, self)
      | Returned msgs \<Rightarrow>
         (case (case msgs of
                  Single m \<Rightarrow> Returned (Single m)
                | Sequence ms \<Rightarrow>
                   (case resolve_all env ms of
                      Raised e \<Rightarrow> Raised e | Returned rs \<Rightarrow> Returned (Sequence rs))) of
            Raised e \<Rightarrow> (Raised e, self)
          | Returned resolved \<Rightarrow>
             (case agent_pool self (agent_id request) of
                None \<Rightarrow> (Raised KeyError, self)
              | Some a \<Rightarrow>
                 (case observe env a resolved of
                    Raised e \<Rightarrow> (Raised e, self)
                  | Returned u \<Rightarrow> (Returned (RpcMsg []), self)))))"

text \<open>\<^verbatim>\<open>_create_agent\<close>: the blob is decoded only when the value is not empty.\<close>

definition srv_create_agent :: "collab \<Rightarrow> platform \<Rightarrow> rpcmsg \<Rightarrow> rpcmsg result \<times> platform" where
  "srv_create_agent env self request =
     (case (if rpc_value request \<noteq> []
            then (case dill_loads env (rpc_value request) of
                    Raised e \<Rightarrow> Raised e | Returned cfg \<Rightarrow> Returned (Some cfg))
            else Returned None) of
        Raised e \<Rightarrow> (Raised e, self)
      | Returned configs \<Rightarrow>
         (case check_and_generate_agent env self (agent_id request) configs of
            (Raised e, s) \<Rightarrow> (Raised e, s)
          | (Returned u, s) \<Rightarrow> (Returned (RpcMsg []), s)))"

text \<open>
  \<^verbatim>\<open>_clone_agent\<close>: a new instance of the class of the original, from its recorded
  settings, stored under the id the constructor gave it.
\<close>

definition srv_clone_agent :: "collab \<Rightarrow> platform \<Rightarrow> rpcmsg \<Rightarrow> rpcmsg result \<times> platform" where
  "srv_clone_agent env self request =
     (case agent_pool self (agent_id request) of
        None \<Rightarrow> (Raised (ValueError (''Agent ['' @ agent_id request @ ''] not exists'')), self)
      | Some ori_agent \<Rightarrow>
         (case construct env (agent_class ori_agent)
                 (fst (init_settings ori_agent)) (snd (init_settings ori_agent)) of
            Raised e \<Rightarrow> (Raised e, self)
          | Returned new_agent \<Rightarrow>
             (Returned (RpcMsg (agent_ident new_agent)),
              self\<lparr>agent_pool := (agent_pool self)(agent_ident new_agent \<mapsto> new_agent)\<rparr>)))"

definition srv_delete_agent :: "platform \<Rightarrow> rpcmsg \<Rightarrow> rpcmsg result \<times> platform" where
  "srv_delete_agent self request =
     (Returned (RpcMsg []), check_and_delete_agent self (agent_id request))"

subsection \<open>The worker\<close>

text \<open>The message stored when the reply fails.\<close>

definition error_msg :: "collab \<Rightarrow> string \<Rightarrow> pyexc \<Rightarrow> msg" where
  "error_msg env aid e =
     (Msg ''ERROR''
        (Some (''Error in agent ['' @ aid @ '']:'' @ [CHR 0x0A] @ format_exc env e)))
     \<lparr>msg_role := ''assistant'', msg_status := Some ''ERROR''\<rparr>"

text \<open>
  \<^verbatim>\<open>process_messages\<close>; \<open>resolve_input\<close> is its first statement, the
  \<^verbatim>\<open>update_value\<close> of an input that is a placeholder. Resolving the input and reading the \<^verbatim>\<open>Condition\<close> from the pool
  come before the \<^verbatim>\<open>try\<close>: an exception there leaves the worker. Inside the \<^verbatim>\<open>try\<close> are
  the look-up of the agent and its \<^verbatim>\<open>reply\<close>. The final \<^verbatim>\<open>with cond:\<close> needs the entry
  read at the start to be a \<^verbatim>\<open>Condition\<close>.
\<close>

definition resolve_input :: "collab \<Rightarrow> wire option \<Rightarrow> wire option result" where
  "resolve_input env task_msg =
     (case task_msg of
        Some (Single (PlaceholderMessage l)) \<Rightarrow>
          (case update_value env l of
             Raised e \<Rightarrow> Raised e
           | Returned m \<Rightarrow> Returned (Some (Single (Concrete m))))
      | other \<Rightarrow> Returned other)"

definition process_messages :: "collab \<Rightarrow> platform \<Rightarrow> task \<Rightarrow> unit result \<times> platform" where
  "process_messages env self t =
     (case t of (task_id, aid, task_msg) \<Rightarrow>
       (case resolve_input env task_msg of
          Raised e \<Rightarrow> (Raised e, self)
        | Returned resolved \<Rightarrow>
           (case result_pool self task_id of
              None \<Rightarrow> (Raised KeyError, self)
            | Some cond \<Rightarrow>
               (let outcome =
                      (case agent_pool self aid of
                         None \<Rightarrow> Raised KeyError
                       | Some a \<Rightarrow> reply env a resolved);
                    stored =
                      (case outcome of
                         Returned r \<Rightarrow> r
                       | Raised e \<Rightarrow> Concrete (error_msg env aid e));
                    s = self\<lparr>result_pool := (result_pool self)(task_id \<mapsto> Result stored)\<rparr>
                in (case cond of
                      Condition \<Rightarrow> (Returned (), s)
                    | Result r \<Rightarrow> (Raised ContextManagerError, s))))))"

text \<open>A worker thread takes the \<open>i\<close>-th submitted task and runs it.\<close>

definition work :: "collab \<Rightarrow> nat \<Rightarrow> platform \<Rightarrow> unit result \<times> platform" where
  "work env i self =
     (if i < length (executor self)
      then process_messages env
             (self\<lparr>executor := take i (executor self) @ drop (Suc i) (executor self)\<rparr>)
             (executor self ! i)
      else (Returned (), self))"

subsection \<open>Dispatch\<close>

text \<open>
  \<^verbatim>\<open>hasattr(self, name)\<close>. The list holds the attributes that the source gives an
  \<^verbatim>\<open>AgentPlatform\<close>: the fields set in \<^verbatim>\<open>__init__\<close> and the methods of the class. The
  attributes that come from \<^verbatim>\<open>RpcAgentServicer\<close> and from \<^verbatim>\<open>object\<close> are the parameter
  \<open>inherited\<close>.
\<close>

definition platform_attributes :: "string list" where
  "platform_attributes =
     [''host'', ''port'', ''result_pool'', ''executor'', ''task_id_lock'',
      ''agent_id_lock'', ''task_id_counter'', ''agent_pool'',
      ''__init__'', ''get_task_id'', ''agent_exists'', ''check_and_generate_agent'',
      ''check_and_delete_agent'', ''call_func'', ''_reply'', ''_get'', ''_observe'',
      ''_create_agent'', ''_clone_agent'', ''_delete_agent'', ''process_messages'']"

definition hasattr :: "string list \<Rightarrow> string \<Rightarrow> bool" where
  "hasattr inherited n = (n \<in> set platform_attributes \<or> n \<in> set inherited)"

text \<open>
  \<^verbatim>\<open>getattr(self, name)(request)\<close> for an attribute that is none of the six handlers:
  \<^item> \<^verbatim>\<open>__init__\<close> initialises the platform again and returns \<^verbatim>\<open>None\<close>;
  \<^item> \<^verbatim>\<open>agent_exists\<close> and \<^verbatim>\<open>check_and_delete_agent\<close> look the request up as a key of the
    agent pool: the look-up raises when the request cannot be hashed; otherwise the
    request, which is no string, is not among the keys, nothing is deleted, and the
    methods return \<^verbatim>\<open>False\<close> and \<^verbatim>\<open>None\<close>;
  \<^item> \<^verbatim>\<open>get_task_id\<close>, \<^verbatim>\<open>check_and_generate_agent\<close>, \<^verbatim>\<open>call_func\<close> and \<^verbatim>\<open>process_messages\<close>
    are called with the wrong number of arguments, and a field (\<^verbatim>\<open>host\<close>, \<^verbatim>\<open>port\<close>, the
    pools, the executor, the locks, the counter) is not callable: a \<^verbatim>\<open>TypeError\<close>, and
    the platform is as before;
  \<^item> an inherited attribute does what \<open>inherited_call\<close> says.
\<close>

definition apply_attribute ::
    "collab \<Rightarrow> platform \<Rightarrow> string \<Rightarrow> rpcmsg \<Rightarrow> pyvalue result \<times> platform" where
  "apply_attribute env self n request =
     (if n = ''__init__'' then (Returned PyNone, reinit request self)
      else if n = ''agent_exists'' then
        ((case hash_request env request of
            Raised e \<Rightarrow> Raised e | Returned u \<Rightarrow> Returned (PyBool False)), self)
      else if n = ''check_and_delete_agent'' then
        ((case hash_request env request of
            Raised e \<Rightarrow> Raised e | Returned u \<Rightarrow> Returned PyNone), self)
      else if n \<in> set platform_attributes then (Raised TypeError, self)
      else inherited_call env n self request)"

text \<open>
  The outcome of \<^verbatim>\<open>call_func\<close>: the call is aborted with a status and a message, or one
  of the six handlers ran (\<open>None\<close>: \<^verbatim>\<open>_get\<close> is still waiting), or
  \<^verbatim>\<open>getattr(self, name)(request)\<close> was evaluated for an attribute that is none of the six
  handlers (\<open>Applied\<close>, with what the evaluation gave and the platform it left).
\<close>

datatype call_outcome =
    Aborted status_code string
  | Handled "(rpcmsg result \<times> platform) option"
  | Applied string "pyvalue result \<times> platform"

text \<open>\<^verbatim>\<open>getattr(self, request.target_func)(request)\<close>\<close>

definition getattr_call ::
    "collab \<Rightarrow> pool list \<Rightarrow> platform \<Rightarrow> string \<Rightarrow> rpcmsg \<Rightarrow> call_outcome" where
  "getattr_call env later self n request =
     (if n = ''_reply'' then Handled (Some (srv_reply env self request))
      else if n = ''_get'' then
        Handled (case srv_get env later self request of
                   None \<Rightarrow> None | Some r \<Rightarrow> Some (r, self))
      else if n = ''_observe'' then Handled (Some (srv_observe env self request))
      else if n = ''_create_agent'' then Handled (Some (srv_create_agent env self request))
      else if n = ''_clone_agent'' then Handled (Some (srv_clone_agent env self request))
      else if n = ''_delete_agent'' then Handled (Some (srv_delete_agent self request))
      else Applied n (apply_attribute env self n request))"

definition call_func ::
    "string list \<Rightarrow> collab \<Rightarrow> pool list \<Rightarrow> platform \<Rightarrow> rpcmsg \<Rightarrow> call_outcome" where
  "call_func inherited env later self request =
     (if hasattr inherited (target_func request) then
        (if target_func request \<notin> set [''_create_agent'', ''_get'']
            \<and> \<not> agent_exists self (agent_id request)
         then Aborted INVALID_ARGUMENT (''Agent ['' @ agent_id request @ ''] not exists.'')
         else getattr_call env later self (target_func request) request)
      else Aborted INVALID_ARGUMENT (''Unsupported method '' @ target_func request))"

text \<open>The platform that a call of \<^verbatim>\<open>call_func\<close> leaves.\<close>

definition platform_after :: "call_outcome \<Rightarrow> platform \<Rightarrow> platform" where
  "platform_after outcome self =
     (case outcome of
        Aborted c m \<Rightarrow> self
      | Handled None \<Rightarrow> self
      | Handled (Some (r, s)) \<Rightarrow> s
      | Applied n (r, s) \<Rightarrow> s)"

subsection \<open>Runs of a server\<close>

text \<open>
  What can happen to one server, step by step: \<^verbatim>\<open>call_func\<close> is called with a request
  (any request: a handler, another attribute, an unknown name), a worker runs a
  submitted task, the container drops an entry of the pool.
\<close>

datatype event =
    Ev_call "string list" collab "pool list" rpcmsg
  | Ev_work collab nat
  | Ev_evict int

text \<open>
  One step: the task ids handed out by the step (the \<open>task_id\<close> of the message in the
  envelope that a \<^verbatim>\<open>_reply\<close> call returned) and the platform after it.
\<close>

fun step :: "event \<Rightarrow> platform \<Rightarrow> int list \<times> platform" where
  "step (Ev_call inherited env later r) s =
     (case call_func inherited env later s r of
        Handled (Some (Returned v, s')) \<Rightarrow>
          ((if target_func r = ''_reply''
            then (case fst (reply_msg env s r) of
                    Returned m \<Rightarrow> (case msg_task_id m of None \<Rightarrow> [] | Some t \<Rightarrow> [t])
                  | Raised e \<Rightarrow> [])
            else []), s')
      | other \<Rightarrow> ([], platform_after other s))"
| "step (Ev_work env i) s = ([], snd (work env i s))"
| "step (Ev_evict k) s = ([], evict k s)"

fun run :: "event list \<Rightarrow> platform \<Rightarrow> int list \<times> platform" where
  "run [] s = ([], s)"
| "run (e # es) s =
     (case step e s of (ids, s') \<Rightarrow>
        (case run es s' of (ids', s'') \<Rightarrow> (ids @ ids', s'')))"

text \<open>\<open>n\<close> calls of \<^verbatim>\<open>get_task_id\<close> in a row: the ids returned and the platform left.\<close>

fun get_task_ids :: "nat \<Rightarrow> platform \<Rightarrow> int list \<times> platform" where
  "get_task_ids 0 s = ([], s)"
| "get_task_ids (Suc n) s =
     (case get_task_id s of (t, s') \<Rightarrow>
        (case get_task_ids n s' of (ts, s'') \<Rightarrow> (t # ts, s'')))"

subsection \<open>Port selection\<close>





subsection \<open>\<^verbatim>\<open>ImportErrorReporter\<close>\<close>










subsection \<open>A small world for the examples\<close>

text \<open>
  The classes of the spec's scenarios: \<open>Echo\<close> replies with its input, \<open>Boom\<close> raises.
  The codec writes a message as its name, reads any bytes as a message from "u" with
  those bytes as content, and reads the task id 5 from the one JSON text it knows. A
  request cannot be hashed, and an inherited attribute applied to a request raises.
\<close>

definition demo :: collab where
  \<open>demo =
     \<lparr>deserialize = (\<lambda>b. Returned (Single (Concrete (Msg ''u'' (Some b))))),
      serialize = (\<lambda>m. case m of Concrete c \<Rightarrow> msg_name c | PlaceholderMessage l \<Rightarrow> ph_agent_id l),
      json_task_id =
        (\<lambda>b. if b = ''{"task_id": 5}'' then Returned 5 else Raised (Foreign ''JSONDecodeError'')),
      dill_loads = (\<lambda>b. Returned \<lparr>class_name = b, cfg_args = [], cfg_kwargs = []\<rparr>),
      get_agent_class =
        (\<lambda>n. if n = ''Echo'' \<or> n = ''Boom'' then Returned n
             else Raised (ValueError ''Agent class not found'')),
      construct =
        (\<lambda>c a k. Returned \<lparr>agent_name = c, agent_ident = ''fresh'', agent_class = c,
                          init_settings = (a, k)\<rparr>),
      update_value = (\<lambda>l. Raised (Foreign ''ConnectionError'')),
      reply =
        (\<lambda>a m. if agent_class a = ''Boom'' then Raised (Foreign ''boom'')
               else (case m of
                       Some (Single x) \<Rightarrow> Returned x
                     | other \<Rightarrow> Returned (Concrete (Msg (agent_name a) None)))),
      observe = (\<lambda>a w. Returned ()),
      format_exc = (\<lambda>e. ''Traceback (most recent call last)''),
      hash_request = (\<lambda>r. Raised TypeError),
      inherited_call = (\<lambda>n s r. (Raised TypeError, s))\<rparr>\<close>

text \<open>A server that hosts one \<open>Boom\<close> agent under the id "a1".\<close>

definition boom_server :: platform where
  "boom_server =
     (AgentPlatform ''localhost'' (Some 12010) 8192 1800)
     \<lparr>agent_pool :=
        [''a1'' \<mapsto> \<lparr>agent_name = ''Boom'', agent_ident = ''a1'', agent_class = ''Boom'',
                      init_settings = ([], [])\<rparr>]\<rparr>"


text \<open>Requests to the agent "a1", and calls of \<^verbatim>\<open>call_func\<close> with them in the small world.\<close>

definition request_a1 :: "string \<Rightarrow> bytes \<Rightarrow> rpcmsg" where
  "request_a1 f v = \<lparr>target_func = f, agent_id = ''a1'', rpc_value = v\<rparr>"

definition call_a1 :: "string \<Rightarrow> bytes \<Rightarrow> event" where
  "call_a1 f v = Ev_call [] demo [] (request_a1 f v)"

section \<open>Port selection\<close>




section \<open>Fetching a result\<close>

lemma get_loop_absent:
  "\<forall>p\<in>set ps. p tid = Some Condition \<Longrightarrow> q tid = None \<Longrightarrow>
     get_loop env tid (ps @ q # rest) = Some (Raised AttributeError)"
  by (induction ps) auto

text \<open>
  C1. The claim is that \<^verbatim>\<open>_get\<close> on a task id that is not in the pool returns an ERROR
  message. On a new platform, whose pool is empty, \<^verbatim>\<open>_get\<close> for the task id 5 leaves the
  loop at once with \<^verbatim>\<open>None\<close> and raises an \<^verbatim>\<open>AttributeError\<close> at
  \<^verbatim>\<open>result.serialize()\<close>: the handler returns no message.
\<close>

theorem get_unknown_task_raises:
  \<open>srv_get demo [] (AgentPlatform ''localhost'' None 8192 1800)
     \<lparr>target_func = ''_get'', agent_id = [], rpc_value = ''{"task_id": 5}''\<rparr>
   = Some (Raised AttributeError)\<close>
  by (simp add: srv_get_def demo_def AgentPlatform_def)

section \<open>Dispatch\<close>

text \<open>
  C3. The claim is that a \<open>target_func\<close> that is none of the six handler names is
  refused with "Unsupported method" and that nothing is dispatched. The gate of
  \<^verbatim>\<open>call_func\<close> is \<^verbatim>\<open>hasattr\<close>, which holds for every attribute of the platform. On a
  server with the agent "a1", the request for \<^verbatim>\<open>get_task_id\<close> is not refused:
  \<^verbatim>\<open>self.get_task_id(request)\<close> is evaluated and raises a \<^verbatim>\<open>TypeError\<close>; and the request
  for \<^verbatim>\<open>__init__\<close> runs the constructor again on the running platform.
\<close>

theorem non_handler_attribute_applied:
  "call_func [] demo [] boom_server (request_a1 ''get_task_id'' []) =
     Applied ''get_task_id'' (Raised TypeError, boom_server) \<and>
   call_func [] demo [] boom_server (request_a1 ''__init__'' []) =
     Applied ''__init__'' (Returned PyNone, reinit (request_a1 ''__init__'' []) boom_server)"
  by (simp add: call_func_def hasattr_def platform_attributes_def agent_exists_def
      boom_server_def AgentPlatform_def getattr_call_def apply_attribute_def request_a1_def)

text \<open>The branch that refuses is reached only by a name that is no attribute at all.\<close>

lemma unsupported_method:
  "target_func request \<notin> set platform_attributes \<Longrightarrow>
   target_func request \<notin> set inherited \<Longrightarrow>
   call_func inherited env later self request =
     Aborted INVALID_ARGUMENT (''Unsupported method '' @ target_func request)"
  by (simp add: call_func_def hasattr_def)

text \<open>
  C4, as claimed: the message for a missing agent is "Agent [id] not exists". The
  message of \<^verbatim>\<open>call_func\<close> ends with a full stop.
\<close>

theorem missing_agent_counterexample:
  "call_func [] demo [] (AgentPlatform ''localhost'' None 8192 1800)
     \<lparr>target_func = ''_reply'', agent_id = ''a1'', rpc_value = []\<rparr>
   = Aborted INVALID_ARGUMENT ''Agent [a1] not exists.'' \<and>
   call_func [] demo [] (AgentPlatform ''localhost'' None 8192 1800)
     \<lparr>target_func = ''_reply'', agent_id = ''a1'', rpc_value = []\<rparr>
   \<noteq> Aborted INVALID_ARGUMENT ''Agent [a1] not exists''"
  by (simp add: call_func_def hasattr_def platform_attributes_def agent_exists_def
      AgentPlatform_def)

text \<open>
  C4, amended: for \<^verbatim>\<open>_delete_agent\<close>, \<^verbatim>\<open>_clone_agent\<close>, \<^verbatim>\<open>_reply\<close> and \<^verbatim>\<open>_observe\<close>, when the
  agent id is not in the agent pool the call is aborted with \<open>INVALID_ARGUMENT\<close> and
  the message "Agent [id] not exists." (with the full stop) and no handler runs; when
  it is in the pool, the outcome is the outcome of the named handler.
\<close>

theorem agent_checked_before_dispatch:
  assumes "target_func request \<in> set [''_delete_agent'', ''_clone_agent'', ''_reply'', ''_observe'']"
  shows "(agent_pool self (agent_id request) = None \<longrightarrow>
            call_func inherited env later self request =
              Aborted INVALID_ARGUMENT (''Agent ['' @ agent_id request @ ''] not exists.''))
       \<and> (agent_pool self (agent_id request) \<noteq> None \<longrightarrow>
            call_func inherited env later self request =
              Handled (Some
                (if target_func request = ''_delete_agent'' then srv_delete_agent self request
                 else if target_func request = ''_clone_agent'' then srv_clone_agent env self request
                 else if target_func request = ''_reply'' then srv_reply env self request
                 else srv_observe env self request)))"
proof -
  have h: "hasattr inherited (target_func request)"
    using assms by (auto simp: hasattr_def platform_attributes_def)
  have n: "target_func request \<notin> set [''_create_agent'', ''_get'']"
    using assms by auto
  show ?thesis
    using assms h n
    by (auto simp: call_func_def agent_exists_def getattr_call_def)
qed

theorem agent_checked_before_dispatch_witness:
  "call_func [] demo [] (AgentPlatform ''localhost'' None 8192 1800)
     \<lparr>target_func = ''_clone_agent'', agent_id = ''a1'', rpc_value = []\<rparr>
   = Aborted INVALID_ARGUMENT ''Agent [a1] not exists.'' \<and>
   call_func [] demo [] boom_server
     \<lparr>target_func = ''_delete_agent'', agent_id = ''a1'', rpc_value = []\<rparr>
   = Handled (Some (Returned (RpcMsg []), boom_server\<lparr>agent_pool := Map.empty\<rparr>))"
  using agent_checked_before_dispatch [of
      "\<lparr>target_func = ''_clone_agent'', agent_id = ''a1'', rpc_value = []\<rparr>"
      "AgentPlatform ''localhost'' None 8192 1800" "[]" demo "[]"]
    agent_checked_before_dispatch [of
      "\<lparr>target_func = ''_delete_agent'', agent_id = ''a1'', rpc_value = []\<rparr>"
      boom_server "[]" demo "[]"]
  by (simp add: AgentPlatform_def boom_server_def srv_delete_agent_def check_and_delete_agent_def)

section \<open>Task ids\<close>

subsection \<open>What \<^verbatim>\<open>_reply\<close> computes\<close>

lemma reply_msg_unfold:
  "reply_msg env s r =
    (case (if rpc_value r \<noteq> []
            then (case deserialize env (rpc_value r) of
                    Raised e \<Rightarrow> Raised e | Returned w \<Rightarrow> Returned (Some w))
            else Returned None) of
       Raised e \<Rightarrow> (Raised e, s)
     | Returned m \<Rightarrow>
        ((case agent_pool s (agent_id r) of
            None \<Rightarrow> Raised KeyError
          | Some a \<Rightarrow> Returned ((Msg (agent_name a) None)\<lparr>msg_task_id := Some (task_id_counter s + 1)\<rparr>)),
         s\<lparr>task_id_counter := task_id_counter s + 1,
           result_pool := (result_pool s)(task_id_counter s + 1 \<mapsto> Condition),
           executor := executor s @ [(task_id_counter s + 1, agent_id r, m)]\<rparr>))"
  unfolding reply_msg_def get_task_id_def Let_def
  by (simp split: result.split option.split)


subsection \<open>Calls for the agent "a1" in the small world\<close>

lemma step_create_a1:
  "agent_pool s ''a1'' = None \<Longrightarrow>
   step (call_a1 ''_create_agent'' ''Boom'') s =
     ([], s\<lparr>agent_pool := (agent_pool s)(''a1'' \<mapsto>
            \<lparr>agent_name = ''Boom'', agent_ident = ''a1'', agent_class = ''Boom'',
             init_settings = ([], [])\<rparr>)\<rparr>)"
  by (simp add: call_a1_def request_a1_def call_func_def hasattr_def platform_attributes_def
      getattr_call_def srv_create_agent_def check_and_generate_agent_def demo_def)

lemma step_reply_a1:
  "agent_pool s ''a1'' = Some a \<Longrightarrow>
   step (call_a1 ''_reply'' []) s =
     ([task_id_counter s + 1],
      s\<lparr>task_id_counter := task_id_counter s + 1,
        result_pool := (result_pool s)(task_id_counter s + 1 \<mapsto> Condition),
        executor := executor s @ [(task_id_counter s + 1, ''a1'', None)]\<rparr>)"
  by (simp add: call_a1_def request_a1_def call_func_def hasattr_def platform_attributes_def
      agent_exists_def getattr_call_def srv_reply_def reply_msg_unfold Msg_def)

lemma step_init_a1:
  "agent_pool s ''a1'' = Some a \<Longrightarrow>
   step (call_a1 ''__init__'' []) s = ([], reinit (request_a1 ''__init__'' []) s)"
  by (simp add: call_a1_def request_a1_def call_func_def hasattr_def platform_attributes_def
      agent_exists_def getattr_call_def apply_attribute_def platform_after_def)

text \<open>
  C5. The claim is that on one server the task ids returned by \<^verbatim>\<open>_reply\<close> are strictly
  increasing. A new server is sent, in this order: \<^verbatim>\<open>_create_agent\<close> for "a1", two
  \<^verbatim>\<open>_reply\<close> calls, a call with \<open>target_func\<close> \<^verbatim>\<open>__init__\<close> (which \<^verbatim>\<open>call_func\<close> admits, see
  C3, and which sets the counter to 0), \<^verbatim>\<open>_create_agent\<close> again and a third \<^verbatim>\<open>_reply\<close>.
  The three \<^verbatim>\<open>_reply\<close> calls return the task ids 1, 2 and 1.
\<close>

theorem task_ids_repeat_after_reinit:
  "fst (run [call_a1 ''_create_agent'' ''Boom'', call_a1 ''_reply'' [], call_a1 ''_reply'' [],
             call_a1 ''__init__'' [],
             call_a1 ''_create_agent'' ''Boom'', call_a1 ''_reply'' []]
          (AgentPlatform ''localhost'' None 8192 1800)) = [1, 2, 1]"
  by (simp add: step_create_a1 step_reply_a1 step_init_a1 AgentPlatform_def reinit_def)

text \<open>
  C10. The claim is that the \<open>n\<close>-th call of \<^verbatim>\<open>get_task_id\<close> on a platform returns
  \<open>n\<close>. On a platform with the agent "a1", the first two calls return 1 and 2; after a
  call of \<^verbatim>\<open>call_func\<close> with \<open>target_func\<close> \<^verbatim>\<open>__init__\<close> (see C3) the third call of
  \<^verbatim>\<open>get_task_id\<close> on the same platform returns 1.
\<close>

theorem third_task_id_after_reinit:
  "fst (get_task_ids 2 boom_server) = [1, 2] \<and>
   fst (get_task_id
          (platform_after
             (call_func [] demo [] (snd (get_task_ids 2 boom_server)) (request_a1 ''__init__'' []))
             (snd (get_task_ids 2 boom_server)))) = 1"
  by (simp add: numeral_2_eq_2 get_task_id_def boom_server_def AgentPlatform_def
      call_func_def hasattr_def platform_attributes_def agent_exists_def getattr_call_def
      apply_attribute_def platform_after_def reinit_def request_a1_def)

section \<open>The future handshake\<close>



section \<open>Creating agents\<close>

text \<open>
  C8, as claimed: \<^verbatim>\<open>_create_agent\<close> with an empty value creates the agent when there is
  none under the id. On a new platform the handler raises a \<^verbatim>\<open>TypeError\<close> (the configs
  are \<^verbatim>\<open>None\<close>) and the pool stays as it was.
\<close>

theorem create_empty_value_counterexample:
  "srv_create_agent demo (AgentPlatform ''localhost'' None 8192 1800)
     \<lparr>target_func = ''_create_agent'', agent_id = ''a1'', rpc_value = []\<rparr>
   = (Raised TypeError, AgentPlatform ''localhost'' None 8192 1800)"
  by (simp add: srv_create_agent_def check_and_generate_agent_def AgentPlatform_def)

text \<open>
  C8, amended: when the agent id is in the pool, \<^verbatim>\<open>check_and_generate_agent\<close> changes
  nothing and returns, whatever the configs and whatever the class registry and the
  constructor would do, and so does \<^verbatim>\<open>_create_agent\<close> with an empty value. When the id
  is not in the pool and the configs name a registered class whose constructor returns
  an instance, that instance, with its agent id set to the requested id, is stored
  under the id; \<^verbatim>\<open>_create_agent\<close> with a value that decodes to such configs does the
  same and returns an empty envelope.
\<close>

theorem create_agent_cases:
  "(agent_pool self aid \<noteq> None \<longrightarrow>
      check_and_generate_agent env self aid configs = (Returned (), self)) \<and>
   (agent_pool self (agent_id request) \<noteq> None \<longrightarrow> rpc_value request = [] \<longrightarrow>
      srv_create_agent env self request = (Returned (RpcMsg []), self)) \<and>
   (agent_pool self aid = None \<longrightarrow>
    get_agent_class env (class_name cfg) = Returned cls \<longrightarrow>
    construct env cls (cfg_args cfg) (cfg_kwargs cfg) = Returned inst \<longrightarrow>
      check_and_generate_agent env self aid (Some cfg) =
        (Returned (),
         self\<lparr>agent_pool := (agent_pool self)(aid \<mapsto> inst\<lparr>agent_ident := aid\<rparr>)\<rparr>)) \<and>
   (agent_pool self (agent_id request) = None \<longrightarrow> rpc_value request \<noteq> [] \<longrightarrow>
    dill_loads env (rpc_value request) = Returned cfg \<longrightarrow>
    get_agent_class env (class_name cfg) = Returned cls \<longrightarrow>
    construct env cls (cfg_args cfg) (cfg_kwargs cfg) = Returned inst \<longrightarrow>
      srv_create_agent env self request =
        (Returned (RpcMsg []),
         self\<lparr>agent_pool :=
           (agent_pool self)(agent_id request \<mapsto> inst\<lparr>agent_ident := agent_id request\<rparr>)\<rparr>))"
  by (simp add: check_and_generate_agent_def srv_create_agent_def)

theorem create_agent_cases_witness:
  "srv_create_agent demo (AgentPlatform ''localhost'' None 8192 1800)
     \<lparr>target_func = ''_create_agent'', agent_id = ''a2'', rpc_value = ''Echo''\<rparr>
   = (Returned (RpcMsg []),
      (AgentPlatform ''localhost'' None 8192 1800)
      \<lparr>agent_pool := [''a2'' \<mapsto> \<lparr>agent_name = ''Echo'', agent_ident = ''a2'',
                          agent_class = ''Echo'', init_settings = ([], [])\<rparr>]\<rparr>) \<and>
   srv_create_agent demo boom_server
     \<lparr>target_func = ''_create_agent'', agent_id = ''a1'', rpc_value = []\<rparr>
   = (Returned (RpcMsg []), boom_server)"
  using create_agent_cases [of "AgentPlatform ''localhost'' None 8192 1800" "''a2''" demo
      "Some \<lparr>class_name = ''Echo'', cfg_args = [], cfg_kwargs = []\<rparr>"
      "\<lparr>target_func = ''_create_agent'', agent_id = ''a2'', rpc_value = ''Echo''\<rparr>"
      "\<lparr>class_name = ''Echo'', cfg_args = [], cfg_kwargs = []\<rparr>" "''Echo''"
      "\<lparr>agent_name = ''Echo'', agent_ident = ''fresh'', agent_class = ''Echo'',
        init_settings = ([], [])\<rparr>"]
    create_agent_cases [of boom_server "''a1''" demo None
      "\<lparr>target_func = ''_create_agent'', agent_id = ''a1'', rpc_value = []\<rparr>"]
  by (simp add: AgentPlatform_def boom_server_def demo_def)

section \<open>Missing optional packages\<close>




section \<open>The worker\<close>





text \<open>
  A worker that finds a stored message under its task id (two tasks can share an id
  after the counter was set back, see C5) stores its message and then raises at
  \<^verbatim>\<open>with cond:\<close>.
\<close>

lemma worker_raises_on_stored_message:
  "resolve_input env task_msg = Returned resolved \<Longrightarrow>
   result_pool self tid = Some (Result r) \<Longrightarrow>
   fst (process_messages env self (tid, aid, task_msg)) = Raised ContextManagerError"
  by (simp add: process_messages_def Let_def)

end
